theory Spec2Isabelle
  imports Complex_Main
begin

section \<open>Syntax trees\<close>

text \<open>
  The part of Python's \<^verbatim>\<open>ast\<close> that the two visitors look at. A constant is a string
  or something else; an expression is a constant or something else (no expression holds
  a statement, so the visitors find nothing below one). A statement is one of the three
  declarations with a name and a body, an expression statement, a compound statement
  that is not a declaration (\<^verbatim>\<open>if\<close>, with its two blocks; \<^verbatim>\<open>for\<close>,
  \<^verbatim>\<open>while\<close>, \<^verbatim>\<open>with\<close> and \<^verbatim>\<open>try\<close> are walked block by block the same
  way), or any simple statement.
\<close>

datatype py_constant = Str string | NonStr

datatype expr = Constant py_constant | OtherExpr

datatype stmt =
    ClassDef string "stmt list"
  | FunctionDef string "stmt list"
  | AsyncFunctionDef string "stmt list"
  | Expr expr
  | IfStmt "stmt list" "stmt list"
  | OtherStmt

datatype ast_module = Module "stmt list"

text \<open>
  The test both visitors make on a body: it is not empty, its first statement is an
  \<^verbatim>\<open>ast.Expr\<close>, whose value is an \<^verbatim>\<open>ast.Constant\<close>, whose value is a
  \<^verbatim>\<open>str\<close>. The result is that string.
\<close>

fun leading_docstring :: "stmt list \<Rightarrow> string option" where
  "leading_docstring (Expr (Constant (Str s)) # rest) = Some s"
| "leading_docstring body = None"

section \<open>Dictionaries\<close>

text \<open>
  A Python \<^verbatim>\<open>dict\<close> from strings to strings, in insertion order: assigning to a key
  that is present keeps its place, a new key goes to the end.
\<close>

type_synonym dict = "(string \<times> string) list"

fun dict_set :: "string \<Rightarrow> string \<Rightarrow> dict \<Rightarrow> dict" where
  "dict_set k v [] = [(k, v)]"
| "dict_set k v ((k', v') # d) =
     (if k' = k then (k', v) # d else (k', v') # dict_set k v d)"

definition dict_update :: "dict \<Rightarrow> dict \<Rightarrow> dict" where
  "dict_update d other = fold (\<lambda>(k, v). dict_set k v) other d"

definition dict_keys :: "dict \<Rightarrow> string list" where
  "dict_keys d = map fst d"

section \<open>Module names\<close>

definition endswith :: "string \<Rightarrow> string \<Rightarrow> bool" where
  "endswith s suf = (length suf \<le> length s \<and> drop (length s - length suf) s = suf)"

text \<open>
  \<^verbatim>\<open>_get_module_name\<close>, from the path relative to the base path (the result of
  \<^verbatim>\<open>os.path.relpath\<close>) and the path separator \<^verbatim>\<open>os.sep\<close>.
\<close>

definition get_module_name :: "char \<Rightarrow> string \<Rightarrow> string" where
  "get_module_name sep rel_path =
     (let rel_path' = (if endswith rel_path ''.py''
                       then take (length rel_path - 3) rel_path else rel_path);
          module_name = map (\<lambda>c. if c = sep then CHR ''.'' else c) rel_path'
      in if endswith module_name ''.__init__''
         then take (length module_name - 9) module_name else module_name)"

section \<open>The symbol extractor\<close>

record extractor =
  current_module :: string
  symbols :: dict

definition record_docstring :: "string \<Rightarrow> stmt list \<Rightarrow> extractor \<Rightarrow> extractor" where
  "record_docstring fqn body ex =
     (case leading_docstring body of
        Some docstring \<Rightarrow> ex\<lparr>symbols := dict_set fqn docstring (symbols ex)\<rparr>
      | None \<Rightarrow> ex)"

text \<open>
  \<^verbatim>\<open>SymbolExtractor.visit\<close> on a statement, and \<^verbatim>\<open>generic_visit\<close> on a block of
  statements. The three declaration visitors build the name from
  \<^verbatim>\<open>self.current_module\<close> and \<^verbatim>\<open>node.name\<close>, record the docstring and walk the
  body; every other statement is walked by \<^verbatim>\<open>generic_visit\<close> alone.
\<close>

fun extractor_visit :: "stmt \<Rightarrow> extractor \<Rightarrow> extractor"
  and extractor_generic_visit :: "stmt list \<Rightarrow> extractor \<Rightarrow> extractor" where
  "extractor_visit (ClassDef name body) ex =
     extractor_generic_visit body
       (record_docstring (current_module ex @ ''.'' @ name) body ex)"
| "extractor_visit (FunctionDef name body) ex =
     extractor_generic_visit body
       (record_docstring (current_module ex @ ''.'' @ name) body ex)"
| "extractor_visit (AsyncFunctionDef name body) ex =
     extractor_generic_visit body
       (record_docstring (current_module ex @ ''.'' @ name) body ex)"
| "extractor_visit (Expr e) ex = ex"
| "extractor_visit (IfStmt body orelse) ex =
     extractor_generic_visit orelse (extractor_generic_visit body ex)"
| "extractor_visit OtherStmt ex = ex"
| "extractor_generic_visit [] ex = ex"
| "extractor_generic_visit (s # ss) ex = extractor_generic_visit ss (extractor_visit s ex)"

fun extractor_visit_Module :: "ast_module \<Rightarrow> extractor \<Rightarrow> extractor" where
  "extractor_visit_Module (Module body) ex =
     extractor_generic_visit body (record_docstring (current_module ex) body ex)"

text \<open>
  What \<^verbatim>\<open>extract_symbols_from_file\<close> does once the file is parsed: a fresh extractor
  for the module name, one visit of the tree, and its \<^verbatim>\<open>symbols\<close>.
\<close>

definition extract_symbols :: "string \<Rightarrow> ast_module \<Rightarrow> dict" where
  "extract_symbols module_name tree =
     symbols (extractor_visit_Module tree \<lparr>current_module = module_name, symbols = []\<rparr>)"

section \<open>The docstring remover\<close>

text \<open>\<^verbatim>\<open>node.body = node.body[1:]\<close> when the body starts with a docstring.\<close>

definition drop_docstring :: "stmt list \<Rightarrow> stmt list" where
  "drop_docstring body =
     (case leading_docstring body of Some docstring \<Rightarrow> tl body | None \<Rightarrow> body)"

function remover_visit :: "stmt \<Rightarrow> stmt"
  and remover_generic_visit :: "stmt list \<Rightarrow> stmt list" where
  "remover_visit (ClassDef name body) =
     ClassDef name (remover_generic_visit (drop_docstring body))"
| "remover_visit (FunctionDef name body) =
     FunctionDef name (remover_generic_visit (drop_docstring body))"
| "remover_visit (AsyncFunctionDef name body) =
     AsyncFunctionDef name (remover_generic_visit (drop_docstring body))"
| "remover_visit (Expr e) = Expr e"
| "remover_visit (IfStmt body orelse) =
     IfStmt (remover_generic_visit body) (remover_generic_visit orelse)"
| "remover_visit OtherStmt = OtherStmt"
| "remover_generic_visit [] = []"
| "remover_generic_visit (s # ss) = remover_visit s # remover_generic_visit ss"
  by pat_completeness auto
termination
proof -
  have shorter: "size_list size (drop_docstring body) \<le> size_list size body" for body
    by (cases body) (auto simp: drop_docstring_def split: option.splits)
  show ?thesis
    by (relation "measure (case_sum size (size_list size))")
       (auto simp: le_imp_less_Suc shorter)
qed

fun remover_visit_Module :: "ast_module \<Rightarrow> ast_module" where
  "remover_visit_Module (Module body) = Module (remover_generic_visit (drop_docstring body))"

section \<open>Extraction over a project\<close>

datatype py_error = SyntaxError | OSError | ValueError | UnicodeEncodeError

text \<open>
  A file that \<^verbatim>\<open>os.walk\<close> lists: its name, its path (the root joined with the
  name), its path relative to the project path, and what opening, reading and parsing
  it gives (the parser is the standard library's): a tree, or the exception raised.
\<close>

record source_file =
  file_name :: string
  file_path :: string
  rel_path :: string
  parsed :: "py_error + ast_module"

definition extract_symbols_from_file :: "char \<Rightarrow> source_file \<Rightarrow> py_error + dict" where
  "extract_symbols_from_file sep f =
     (case parsed f of
        Inl e \<Rightarrow> Inl e
      | Inr tree \<Rightarrow> Inr (extract_symbols (get_module_name sep (rel_path f)) tree))"

text \<open>
  The two messages of the loop, each with the file path in it. \<^verbatim>\<open>print\<close> writes to
  standard output and raises \<^verbatim>\<open>UnicodeEncodeError\<close> on a message that the encoding
  of standard output cannot encode; which messages it can encode is a parameter.
\<close>

datatype log_line = Processed string | Failed string py_error

type_synonym console = "log_line \<Rightarrow> bool"

record run =
  all_symbols :: dict
  printed :: "log_line list"

definition print_line :: "console \<Rightarrow> log_line \<Rightarrow> run \<Rightarrow> py_error + run" where
  "print_line can_print line st =
     (if can_print line then Inr (st\<lparr>printed := printed st @ [line]\<rparr>)
      else Inl UnicodeEncodeError)"

text \<open>
  The \<^verbatim>\<open>try\<close> block for one file: extract, update \<^verbatim>\<open>all_symbols\<close>, print. It
  ends with the new state, or with the exception raised and the state at that point.
\<close>

definition try_file :: "char \<Rightarrow> console \<Rightarrow> source_file \<Rightarrow> run \<Rightarrow> (py_error \<times> run) + run" where
  "try_file sep can_print f st =
     (case extract_symbols_from_file sep f of
        Inl e \<Rightarrow> Inl (e, st)
      | Inr syms \<Rightarrow>
          (case print_line can_print (Processed (file_path f))
                  (st\<lparr>all_symbols := dict_update (all_symbols st) syms\<rparr>) of
             Inl e \<Rightarrow> Inl (e, st\<lparr>all_symbols := dict_update (all_symbols st) syms\<rparr>)
           | Inr st' \<Rightarrow> Inr st'))"

text \<open>
  The body of the loop of \<^verbatim>\<open>extract_symbols_from_project\<close> for one file.
  \<^verbatim>\<open>except Exception\<close> catches every exception of the \<^verbatim>\<open>try\<close> block; its own
  \<^verbatim>\<open>print\<close> is under no \<^verbatim>\<open>try\<close>, so an exception there leaves the loop.
\<close>

definition process_file :: "char \<Rightarrow> console \<Rightarrow> source_file \<Rightarrow> run \<Rightarrow> py_error + run" where
  "process_file sep can_print f st =
     (if endswith (file_name f) ''.py'' then
        (case try_file sep can_print f st of
           Inr st' \<Rightarrow> Inr st'
         | Inl (e, st') \<Rightarrow> print_line can_print (Failed (file_path f) e) st')
      else Inr st)"

fun project_loop :: "char \<Rightarrow> console \<Rightarrow> source_file list \<Rightarrow> run \<Rightarrow> py_error + run" where
  "project_loop sep can_print [] st = Inr st"
| "project_loop sep can_print (f # fs) st =
     (case process_file sep can_print f st of
        Inl e \<Rightarrow> Inl e
      | Inr st' \<Rightarrow> project_loop sep can_print fs st')"

definition extract_symbols_from_project :: "char \<Rightarrow> console \<Rightarrow> source_file list \<Rightarrow> py_error + dict" where
  "extract_symbols_from_project sep can_print files =
     (case project_loop sep can_print files \<lparr>all_symbols = [], printed = []\<rparr> of
        Inl e \<Rightarrow> Inl e
      | Inr st \<Rightarrow> Inr (all_symbols st))"

section \<open>The symbol matcher\<close>

text \<open>
  The vectoriser and the cosine of its two rows are scikit-learn's; they are a parameter
  here, a function of the two texts that gives the score or raises.
\<close>

type_synonym vectoriser = "string \<Rightarrow> string \<Rightarrow> py_error + real"

definition calculate_similarity :: "vectoriser \<Rightarrow> string \<Rightarrow> string \<Rightarrow> py_error + real" where
  "calculate_similarity tfidf text1 text2 =
     (if text1 = [] \<or> text2 = [] then Inr 0
      else (case tfidf text1 text2 of
              Inr sim \<Rightarrow> Inr sim
            | Inl e \<Rightarrow> Inr 0))"

text \<open>\<^verbatim>\<open>str.split\<close> on a one-character separator; the result is never empty.\<close>

fun split_on :: "char \<Rightarrow> string \<Rightarrow> string list" where
  "split_on c [] = [[]]"
| "split_on c (x # xs) =
     (if x = c then [] # split_on c xs
      else (case split_on c xs of
              seg # segs \<Rightarrow> (x # seg) # segs
            | [] \<Rightarrow> [[x]]))"

text \<open>\<^verbatim>\<open>key.split('.')[-1]\<close>\<close>

definition last_segment :: "string \<Rightarrow> string" where
  "last_segment key = last (split_on (CHR ''.'') key)"

record match_result =
  summary_symbol :: string
  docstring_symbol :: string
  similarity :: real
  summary_description :: string
  docstring_description :: string

record best =
  best_match :: "string option"
  best_similarity :: real
  best_docstring_desc :: string

text \<open>The inner loop of \<^verbatim>\<open>match_symbols\<close> over the items of the docstring dictionary.\<close>

fun suffix_scan :: "vectoriser \<Rightarrow> string \<Rightarrow> string \<Rightarrow> dict \<Rightarrow> best \<Rightarrow> py_error + best" where
  "suffix_scan tfidf summary_suffix summary_desc [] b = Inr b"
| "suffix_scan tfidf summary_suffix summary_desc ((docstring_key, docstring_desc) # items) b =
     (if summary_suffix = last_segment docstring_key then
        (case calculate_similarity tfidf summary_desc docstring_desc of
           Inl e \<Rightarrow> Inl e
         | Inr sim \<Rightarrow>
             if sim > best_similarity b
             then suffix_scan tfidf summary_suffix summary_desc items
                    \<lparr>best_match = Some docstring_key, best_similarity = sim,
                     best_docstring_desc = docstring_desc\<rparr>
             else suffix_scan tfidf summary_suffix summary_desc items b)
      else suffix_scan tfidf summary_suffix summary_desc items b)"

definition no_match :: "string \<Rightarrow> string \<Rightarrow> match_result" where
  "no_match summary_key summary_desc =
     \<lparr>summary_symbol = summary_key, docstring_symbol = ''NO_MATCH'', similarity = 0,
      summary_description = summary_desc, docstring_description = []\<rparr>"

text \<open>
  The body of the outer loop for one item of the summary dictionary.
  \<^verbatim>\<open>if best_match:\<close> is Python's truth test: it fails on \<^verbatim>\<open>None\<close> and on the
  empty string.
\<close>

definition match_symbol :: "vectoriser \<Rightarrow> dict \<Rightarrow> string \<times> string \<Rightarrow> py_error + match_result" where
  "match_symbol tfidf docstrings_data item =
     (case item of (summary_key, summary_desc) \<Rightarrow>
        (case map_of docstrings_data summary_key of
           Some docstring_desc \<Rightarrow>
             (case calculate_similarity tfidf summary_desc docstring_desc of
                Inl e \<Rightarrow> Inl e
              | Inr sim \<Rightarrow>
                  Inr \<lparr>summary_symbol = summary_key, docstring_symbol = summary_key,
                       similarity = sim, summary_description = summary_desc,
                       docstring_description = docstring_desc\<rparr>)
         | None \<Rightarrow>
             (case suffix_scan tfidf (last_segment summary_key) summary_desc docstrings_data
                     \<lparr>best_match = None, best_similarity = 0, best_docstring_desc = []\<rparr> of
                Inl e \<Rightarrow> Inl e
              | Inr b \<Rightarrow>
                  (case best_match b of
                     None \<Rightarrow> Inr (no_match summary_key summary_desc)
                   | Some k \<Rightarrow>
                       if k \<noteq> []
                       then Inr \<lparr>summary_symbol = summary_key, docstring_symbol = k,
                                 similarity = best_similarity b,
                                 summary_description = summary_desc,
                                 docstring_description = best_docstring_desc b\<rparr>
                       else Inr (no_match summary_key summary_desc)))))"

fun match_loop :: "vectoriser \<Rightarrow> dict \<Rightarrow> dict \<Rightarrow> match_result list \<Rightarrow> py_error + match_result list" where
  "match_loop tfidf docstrings_data [] results = Inr results"
| "match_loop tfidf docstrings_data (item # items) results =
     (case match_symbol tfidf docstrings_data item of
        Inl e \<Rightarrow> Inl e
      | Inr r \<Rightarrow> match_loop tfidf docstrings_data items (results @ [r]))"

definition match_symbols :: "vectoriser \<Rightarrow> dict \<Rightarrow> dict \<Rightarrow> py_error + match_result list" where
  "match_symbols tfidf summary_data docstrings_data =
     match_loop tfidf docstrings_data summary_data []"

section \<open>Vocabulary of the statements\<close>

text \<open>A body that starts with two string-literal expression statements.\<close>

fun two_leading_strings :: "stmt list \<Rightarrow> bool" where
  "two_leading_strings (Expr (Constant (Str a)) # Expr (Constant (Str b)) # rest) = True"
| "two_leading_strings body = False"

text \<open>
  No class, function or async-function body of the statement (of the block) starts with
  two string-literal expression statements.
\<close>

fun single_docstring_stmt :: "stmt \<Rightarrow> bool"
  and single_docstring_block :: "stmt list \<Rightarrow> bool" where
  "single_docstring_stmt (ClassDef name body) =
     (\<not> two_leading_strings body \<and> single_docstring_block body)"
| "single_docstring_stmt (FunctionDef name body) =
     (\<not> two_leading_strings body \<and> single_docstring_block body)"
| "single_docstring_stmt (AsyncFunctionDef name body) =
     (\<not> two_leading_strings body \<and> single_docstring_block body)"
| "single_docstring_stmt (Expr e) = True"
| "single_docstring_stmt (IfStmt body orelse) =
     (single_docstring_block body \<and> single_docstring_block orelse)"
| "single_docstring_stmt OtherStmt = True"
| "single_docstring_block [] = True"
| "single_docstring_block (s # ss) = (single_docstring_stmt s \<and> single_docstring_block ss)"

fun single_docstring_tree :: "ast_module \<Rightarrow> bool" where
  "single_docstring_tree (Module body) =
     (\<not> two_leading_strings body \<and> single_docstring_block body)"

text \<open>No class, function or async-function body of the statement starts with a docstring.\<close>

fun undocumented_stmt :: "stmt \<Rightarrow> bool"
  and undocumented_block :: "stmt list \<Rightarrow> bool" where
  "undocumented_stmt (ClassDef name body) =
     (leading_docstring body = None \<and> undocumented_block body)"
| "undocumented_stmt (FunctionDef name body) =
     (leading_docstring body = None \<and> undocumented_block body)"
| "undocumented_stmt (AsyncFunctionDef name body) =
     (leading_docstring body = None \<and> undocumented_block body)"
| "undocumented_stmt (Expr e) = True"
| "undocumented_stmt (IfStmt body orelse) =
     (undocumented_block body \<and> undocumented_block orelse)"
| "undocumented_stmt OtherStmt = True"
| "undocumented_block [] = True"
| "undocumented_block (s # ss) = (undocumented_stmt s \<and> undocumented_block ss)"

text \<open>
  The score that \<^verbatim>\<open>calculate_similarity\<close> returns for two texts.
\<close>

definition similarity_of :: "vectoriser \<Rightarrow> string \<Rightarrow> string \<Rightarrow> real" where
  "similarity_of tfidf text1 text2 =
     (case calculate_similarity tfidf text1 text2 of Inr sim \<Rightarrow> sim | Inl e \<Rightarrow> 0)"

text \<open>
  The state of the inner loop once a candidate has been taken.
\<close>

definition chosen :: "string \<times> string \<Rightarrow> real \<Rightarrow> best" where
  "chosen entry sim =
     \<lparr>best_match = Some (fst entry), best_similarity = sim, best_docstring_desc = snd entry\<rparr>"

text \<open>
  The result emitted for a summary entry matched by suffix to an entry of the docstring
  dictionary.
\<close>

definition fuzzy_result :: "vectoriser \<Rightarrow> string \<Rightarrow> string \<Rightarrow> string \<times> string \<Rightarrow> match_result" where
  "fuzzy_result tfidf summary_key summary_desc entry =
     \<lparr>summary_symbol = summary_key, docstring_symbol = fst entry,
      similarity = similarity_of tfidf summary_desc (snd entry),
      summary_description = summary_desc, docstring_description = snd entry\<rparr>"

text \<open>
  No item whose key ends in the suffix scores above the bound.
\<close>

definition none_above :: "vectoriser \<Rightarrow> string \<Rightarrow> string \<Rightarrow> dict \<Rightarrow> real \<Rightarrow> bool" where
  "none_above tfidf suf desc items bound =
     (\<forall>(k', d') \<in> set items. suf = last_segment k' \<longrightarrow> similarity_of tfidf desc d' \<le> bound)"

text \<open>
  An entry of the docstring dictionary, between the items before and after it in
  iteration order, is the first one with the best score: its key ends in the suffix,
  every candidate before it scores strictly less, none after it scores more.
\<close>

definition first_best :: "vectoriser \<Rightarrow> string \<Rightarrow> string \<Rightarrow> dict \<Rightarrow> string \<times> string \<Rightarrow> dict \<Rightarrow> bool" where
  "first_best tfidf suf desc pre entry post =
     (suf = last_segment (fst entry) \<and>
      (\<forall>(k', d') \<in> set pre. suf = last_segment k' \<longrightarrow>
          similarity_of tfidf desc d' < similarity_of tfidf desc (snd entry)) \<and>
      (\<forall>(k', d') \<in> set post. suf = last_segment k' \<longrightarrow>
          similarity_of tfidf desc d' \<le> similarity_of tfidf desc (snd entry)))"

text \<open>
  An entry is a candidate with the maximum score; and at most one entry is.
\<close>

definition is_top :: "vectoriser \<Rightarrow> string \<Rightarrow> string \<Rightarrow> dict \<Rightarrow> string \<times> string \<Rightarrow> bool" where
  "is_top tfidf suf desc items entry =
     (suf = last_segment (fst entry) \<and>
      none_above tfidf suf desc items (similarity_of tfidf desc (snd entry)))"

definition single_top :: "vectoriser \<Rightarrow> string \<Rightarrow> string \<Rightarrow> dict \<Rightarrow> bool" where
  "single_top tfidf suf desc items =
     (\<forall>e1 \<in> set items. \<forall>e2 \<in> set items.
        is_top tfidf suf desc items e1 \<and> is_top tfidf suf desc items e2 \<longrightarrow> e1 = e2)"

text \<open>
  The vectoriser on texts of one word each, where \<^verbatim>\<open>the\<close> and \<^verbatim>\<open>of\<close> are
  stop words: two stop words leave an empty vocabulary and \<^verbatim>\<open>fit_transform\<close>
  raises \<^verbatim>\<open>ValueError\<close>; the same word twice gives cosine 1; two different words
  give cosine 0. It is the instance used in the examples.
\<close>

definition one_word_tfidf :: vectoriser where
  "one_word_tfidf text1 text2 =
     (if text1 \<in> {''the'', ''of''} \<and> text2 \<in> {''the'', ''of''} then Inl ValueError
      else if text1 = text2 then Inr 1 else Inr 0)"

text \<open>
  The dictionary that a run of the loop gives, or the exception that ended it.
\<close>

definition corpus_of :: "py_error + run \<Rightarrow> py_error + dict" where
  "corpus_of r = (case r of Inl e \<Rightarrow> Inl e | Inr st \<Rightarrow> Inr (all_symbols st))"

text \<open>
  A standard output in strict UTF-8, on the paths of the examples: a path of ASCII
  characters is printed; a path with the byte \<^verbatim>\<open>0xFF\<close>, which is in no UTF-8
  text, is not.
\<close>

fun line_path :: "log_line \<Rightarrow> string" where
  "line_path (Processed path) = path"
| "line_path (Failed path e) = path"

definition utf8_strict :: console where
  "utf8_strict line = (CHR 0xFF \<notin> set (line_path line))"

text \<open>
  Files of a project: two that parse, one that does not parse, and one that does not
  parse and whose name has the byte \<^verbatim>\<open>0xFF\<close>.
\<close>

definition good_file :: source_file where
  "good_file = \<lparr>file_name = ''a.py'', file_path = ''proj/pkg/a.py'', rel_path = ''pkg/a.py'',
     parsed = Inr (Module [Expr (Constant (Str ''about a''))])\<rparr>"

definition bad_file :: source_file where
  "bad_file = \<lparr>file_name = ''b.py'', file_path = ''proj/pkg/b.py'', rel_path = ''pkg/b.py'',
     parsed = Inl SyntaxError\<rparr>"

definition unprintable_bad_file :: source_file where
  "unprintable_bad_file =
     \<lparr>file_name = CHR 0xFF # ''.py'', file_path = ''proj/'' @ CHR 0xFF # ''.py'',
      rel_path = CHR 0xFF # ''.py'', parsed = Inl SyntaxError\<rparr>"

definition later_file :: source_file where
  "later_file = \<lparr>file_name = ''c.py'', file_path = ''proj/c.py'', rel_path = ''c.py'',
     parsed = Inr (Module [FunctionDef ''g'' [Expr (Constant (Str ''about g''))]])\<rparr>"

section \<open>Qualified names\<close>

text \<open>
  C1. The claim: a declaration nested in another one is recorded under the enclosing
  declaration's identifier, a dot and its own name, so a method \<^verbatim>\<open>f\<close> of a class
  \<^verbatim>\<open>C\<close> in module \<^verbatim>\<open>m\<close> under \<^verbatim>\<open>m.C.f\<close>. The extractor builds every name
  from the module name and the declaration's own name only: the documented method is
  recorded under \<^verbatim>\<open>m.f\<close>, and \<^verbatim>\<open>m.C.f\<close> is no key of the result.
\<close>

theorem nested_method_key:
  "extract_symbols ''m''
     (Module [ClassDef ''C'' [FunctionDef ''f'' [Expr (Constant (Str ''doc''))]]])
   = [(''m.f'', ''doc'')]"
  by (simp add: extract_symbols_def record_docstring_def)

lemma endswith_append: "endswith (xs @ suf) suf"
  by (simp add: endswith_def)

lemma endswith_initializer:
  "endswith ''__init__.py'' ''.py''" "\<not> endswith ''__init__'' ''.__init__''"
  by (simp_all add: endswith_def)

text \<open>
  C10. For a package initializer directly at the base path, whose relative path is
  \<^verbatim>\<open>__init__.py\<close>, the module name is \<^verbatim>\<open>__init__\<close>; an initializer below a
  directory \<^verbatim>\<open>d\<close> of the base path gets the dotted name of \<^verbatim>\<open>d\<close>. The
  separator is any character that does not occur in \<^verbatim>\<open>__init__\<close>.
\<close>

theorem base_initializer_module_name:
  assumes "sep \<notin> set ''__init__''"
  shows "get_module_name sep ''__init__.py'' = ''__init__'' \<and>
         get_module_name sep (d @ sep # ''__init__.py'')
           = map (\<lambda>c. if c = sep then CHR ''.'' else c) d"
proof
  from assms have same: "map (\<lambda>c. if c = sep then CHR ''.'' else c) ''__init__'' = ''__init__''"
    by auto
  have "take (length ''__init__.py'' - 3) ''__init__.py'' = ''__init__''" by simp
  with same endswith_initializer show "get_module_name sep ''__init__.py'' = ''__init__''"
    unfolding get_module_name_def Let_def by presburger
  let ?p = "d @ sep # ''__init__.py''"
  let ?m = "map (\<lambda>c. if c = sep then CHR ''.'' else c) d"
  have p: "?p = (d @ sep # ''__init__'') @ ''.py''" by simp
  have e1: "endswith ?p ''.py''" unfolding p by (rule endswith_append)
  have t1: "take (length ?p - 3) ?p = d @ sep # ''__init__''" by simp
  have m1: "map (\<lambda>c. if c = sep then CHR ''.'' else c) (d @ sep # ''__init__'')
            = ?m @ ''.__init__''"
    using same by simp
  have e2: "endswith (?m @ ''.__init__'') ''.__init__''" by (rule endswith_append)
  have t2: "take (length (?m @ ''.__init__'') - 9) (?m @ ''.__init__'') = ?m" by simp
  show "get_module_name sep ?p = ?m"
    unfolding get_module_name_def Let_def using e1 t1 m1 e2 t2 by presburger
qed

theorem base_initializer_module_name_witness:
  "CHR ''/'' \<notin> set ''__init__'' \<and>
   get_module_name (CHR ''/'') ''__init__.py'' = ''__init__'' \<and>
   get_module_name (CHR ''/'') ''pkg/sub/__init__.py'' = ''pkg.sub''"
  using base_initializer_module_name [of "CHR ''/''" "''pkg/sub''"] by simp

section \<open>Stripping and extracting again\<close>

lemma leading_docstring_Some:
  "(leading_docstring body = Some d) = (\<exists>rest. body = Expr (Constant (Str d)) # rest)"
  by (cases body rule: leading_docstring.cases) auto

lemma leading_docstring_remover:
  "leading_docstring (remover_generic_visit body) = leading_docstring body"
  by (cases body rule: leading_docstring.cases) auto

lemma leading_docstring_drop:
  assumes "\<not> two_leading_strings body"
  shows "leading_docstring (drop_docstring body) = None"
proof (cases "leading_docstring body")
  case None
  then show ?thesis by (simp add: drop_docstring_def)
next
  case (Some d)
  then obtain rest where body: "body = Expr (Constant (Str d)) # rest"
    by (auto simp: leading_docstring_Some)
  with assms have "leading_docstring rest = None"
    by (cases rest rule: leading_docstring.cases) auto
  with body show ?thesis by (simp add: drop_docstring_def)
qed

lemma single_block_drop:
  "single_docstring_block body \<Longrightarrow> single_docstring_block (drop_docstring body)"
  by (cases body) (auto simp: drop_docstring_def split: option.splits)

lemma remover_undocumented:
  "single_docstring_stmt s \<Longrightarrow> undocumented_stmt (remover_visit s)"
  "single_docstring_block b \<Longrightarrow> undocumented_block (remover_generic_visit b)"
  by (induction s and b rule: remover_visit_remover_generic_visit.induct)
     (simp_all add: leading_docstring_remover leading_docstring_drop single_block_drop)

lemma remover_fixes_undocumented:
  "undocumented_stmt s \<Longrightarrow> remover_visit s = s"
  "undocumented_block b \<Longrightarrow> remover_generic_visit b = b"
  by (induction s and b rule: undocumented_stmt_undocumented_block.induct)
     (simp_all add: drop_docstring_def)

lemma extractor_skips_undocumented:
  "undocumented_stmt s \<Longrightarrow> extractor_visit s ex = ex"
  "undocumented_block b \<Longrightarrow> extractor_generic_visit b ex = ex"
  by (induction s and b arbitrary: ex and ex rule: undocumented_stmt_undocumented_block.induct)
     (simp_all add: record_docstring_def)

text \<open>
  C2, as amended. For every tree in which no module, class or function body starts with
  two string-literal expression statements, extraction from the stripped tree gives the
  empty dictionary, so no entry for any name documented before.
\<close>

theorem reextract_empty:
  assumes "single_docstring_tree t"
  shows "extract_symbols m (remover_visit_Module t) = []"
proof (cases t)
  case (Module body)
  let ?b = "remover_generic_visit (drop_docstring body)"
  from assms Module have "undocumented_block ?b"
    by (simp add: remover_undocumented(2) single_block_drop)
  moreover from assms Module have "leading_docstring ?b = None"
    by (simp add: leading_docstring_remover leading_docstring_drop)
  ultimately show ?thesis using Module
    by (simp add: extract_symbols_def record_docstring_def extractor_skips_undocumented(2))
qed

theorem reextract_empty_witness:
  "single_docstring_tree
     (Module [Expr (Constant (Str ''mod'')),
              ClassDef ''C'' [Expr (Constant (Str ''hi'')), FunctionDef ''f'' [OtherStmt]]])
   \<and> extract_symbols ''a.b'' (remover_visit_Module
     (Module [Expr (Constant (Str ''mod'')),
              ClassDef ''C'' [Expr (Constant (Str ''hi'')), FunctionDef ''f'' [OtherStmt]]])) = []"
  using reextract_empty [of "Module [Expr (Constant (Str ''mod'')),
              ClassDef ''C'' [Expr (Constant (Str ''hi'')), FunctionDef ''f'' [OtherStmt]]]" "''a.b''"]
  by simp

text \<open>
  The claim as stated fails on a function whose body starts with two string literals:
  the first is removed, the second is then the first statement, and the name has an
  entry again.
\<close>

theorem reextract_counterexample:
  "''m.f'' \<in> set (dict_keys (extract_symbols ''m''
       (Module [FunctionDef ''f'' [Expr (Constant (Str ''a'')), Expr (Constant (Str ''b''))]])))
   \<and> ''m.f'' \<in> set (dict_keys (extract_symbols ''m'' (remover_visit_Module
       (Module [FunctionDef ''f'' [Expr (Constant (Str ''a'')), Expr (Constant (Str ''b''))]]))))"
  by (simp add: extract_symbols_def record_docstring_def drop_docstring_def dict_keys_def)

text \<open>
  C3, as amended. Stripping is idempotent on every tree in which no module, class or
  function body starts with two string-literal expression statements.
\<close>

theorem strip_idempotent:
  assumes "single_docstring_tree t"
  shows "remover_visit_Module (remover_visit_Module t) = remover_visit_Module t"
proof (cases t)
  case (Module body)
  let ?b = "remover_generic_visit (drop_docstring body)"
  from assms Module have "undocumented_block ?b"
    by (simp add: remover_undocumented(2) single_block_drop)
  moreover from assms Module have "leading_docstring ?b = None"
    by (simp add: leading_docstring_remover leading_docstring_drop)
  ultimately show ?thesis using Module
    by (simp add: drop_docstring_def remover_fixes_undocumented(2))
qed

theorem strip_idempotent_witness:
  "single_docstring_tree
     (Module [Expr (Constant (Str ''mod'')),
              FunctionDef ''g'' [Expr (Constant (Str ''doc'')), IfStmt [OtherStmt] []]])
   \<and> remover_visit_Module (remover_visit_Module
     (Module [Expr (Constant (Str ''mod'')),
              FunctionDef ''g'' [Expr (Constant (Str ''doc'')), IfStmt [OtherStmt] []]]))
   = Module [FunctionDef ''g'' [IfStmt [OtherStmt] []]]"
  using strip_idempotent [of "Module [Expr (Constant (Str ''mod'')),
              FunctionDef ''g'' [Expr (Constant (Str ''doc'')), IfStmt [OtherStmt] []]]"]
  by (simp add: drop_docstring_def)

text \<open>
  The claim as stated fails where a body starts with two string literals: the second
  pass removes the second one.
\<close>

theorem strip_idempotent_counterexample:
  "remover_visit_Module (remover_visit_Module
     (Module [FunctionDef ''f'' [Expr (Constant (Str ''a'')), Expr (Constant (Str ''b'')), OtherStmt]]))
   \<noteq> remover_visit_Module
     (Module [FunctionDef ''f'' [Expr (Constant (Str ''a'')), Expr (Constant (Str ''b'')), OtherStmt]])"
  by (simp add: drop_docstring_def)

text \<open>
  C4. The claim: stripping keeps at least one statement in every class and function
  body, with a placeholder where the docstring was the only statement. The remover
  inserts nothing: a function whose body is its docstring alone comes out with an empty
  body.
\<close>

theorem sole_docstring_body_emptied:
  "remover_visit (FunctionDef ''f'' [Expr (Constant (Str ''doc''))]) = FunctionDef ''f'' []"
  by (simp add: drop_docstring_def)

section \<open>A file that fails\<close>

lemma corpus_of_simps [simp]:
  "corpus_of (Inl e) = Inl e" "corpus_of (Inr st) = Inr (all_symbols st)"
  by (simp_all add: corpus_of_def)

lemma print_line_corpus:
  "corpus_of (print_line can_print line st)
     = (if can_print line then Inr (all_symbols st) else Inl UnicodeEncodeError)"
  by (simp add: print_line_def)

lemma process_file_corpus:
  "corpus_of (process_file sep can_print f st) =
     (if endswith (file_name f) ''.py'' then
        (case extract_symbols_from_file sep f of
           Inl e \<Rightarrow>
             if can_print (Failed (file_path f) e) then Inr (all_symbols st)
             else Inl UnicodeEncodeError
         | Inr syms \<Rightarrow>
             if can_print (Processed (file_path f))
                \<or> can_print (Failed (file_path f) UnicodeEncodeError)
             then Inr (dict_update (all_symbols st) syms)
             else Inl UnicodeEncodeError)
      else Inr (all_symbols st))"
proof (cases "endswith (file_name f) ''.py''")
  case False
  then show ?thesis by (simp add: process_file_def)
next
  case py: True
  show ?thesis
  proof (cases "extract_symbols_from_file sep f")
    case (Inl e)
    with py show ?thesis
      by (simp add: process_file_def try_file_def print_line_def)
  next
    case (Inr syms)
    with py show ?thesis
      by (simp add: process_file_def try_file_def print_line_def)
  qed
qed


lemma process_file_same_corpus:
  assumes "all_symbols st = all_symbols st'"
  shows "corpus_of (process_file sep can_print f st)
       = corpus_of (process_file sep can_print f st')"
  by (simp only: process_file_corpus assms)

lemma project_loop_same_corpus:
  "all_symbols st = all_symbols st' \<Longrightarrow>
     corpus_of (project_loop sep can_print fs st)
       = corpus_of (project_loop sep can_print fs st')"
proof (induction fs arbitrary: st st')
  case Nil
  then show ?case by simp
next
  case (Cons f fs)
  from Cons.prems have step: "corpus_of (process_file sep can_print f st)
       = corpus_of (process_file sep can_print f st')"
    by (rule process_file_same_corpus)
  show ?case
  proof (cases "process_file sep can_print f st")
    case (Inl e)
    with step have "process_file sep can_print f st' = Inl e"
      by (cases "process_file sep can_print f st'") simp_all
    with Inl show ?thesis by simp
  next
    case (Inr s1)
    with step obtain s1' where s1': "process_file sep can_print f st' = Inr s1'"
      and eq: "all_symbols s1 = all_symbols s1'"
      by (cases "process_file sep can_print f st'") simp_all
    from eq have "corpus_of (project_loop sep can_print fs s1)
       = corpus_of (project_loop sep can_print fs s1')"
      by (rule Cons.IH)
    with Inr s1' show ?thesis by simp
  qed
qed

lemma project_loop_append:
  "project_loop sep can_print (fs @ gs) st =
     (case project_loop sep can_print fs st of
        Inl e \<Rightarrow> Inl e
      | Inr st' \<Rightarrow> project_loop sep can_print gs st')"
proof (induction fs arbitrary: st)
  case Nil
  show ?case by simp
next
  case (Cons f fs)
  show ?case by (cases "process_file sep can_print f st") (simp_all add: Cons.IH)
qed

text \<open>
  What holds of a file on which extraction raises: the accumulated dictionary is not
  changed by it, whether or not the loop goes on.
\<close>

lemma failed_file_corpus_unchanged:
  assumes "parsed f = Inl e" and "process_file sep can_print f st = Inr st'"
  shows "all_symbols st' = all_symbols st"
proof -
  from assms(1) have "extract_symbols_from_file sep f = Inl e"
    by (simp add: extract_symbols_from_file_def)
  then have "corpus_of (process_file sep can_print f st) = Inr (all_symbols st)
      \<or> corpus_of (process_file sep can_print f st) = Inl UnicodeEncodeError"
    by (simp add: process_file_corpus)
  with assms(2) show ?thesis by simp
qed

text \<open>
  And where the message of the handler can be printed, the loop goes on with the files
  after it: the run gives what the run without that file gives.
\<close>

lemma failed_file_skipped:
  assumes failed: "parsed f = Inl e" and printable: "can_print (Failed (file_path f) e)"
  shows "extract_symbols_from_project sep can_print (pre @ f # post)
       = extract_symbols_from_project sep can_print (pre @ post)"
proof -
  let ?st0 = "\<lparr>all_symbols = [], printed = []\<rparr>"
  from failed have ex: "extract_symbols_from_file sep f = Inl e"
    by (simp add: extract_symbols_from_file_def)
  have step: "\<exists>s'. process_file sep can_print f s = Inr s' \<and> all_symbols s' = all_symbols s"
    for s
  proof -
    from ex printable
    have "corpus_of (process_file sep can_print f s) = Inr (all_symbols s)"
      by (simp add: process_file_corpus)
    then show ?thesis by (cases "process_file sep can_print f s") simp_all
  qed
  have "corpus_of (project_loop sep can_print (pre @ f # post) ?st0)
      = corpus_of (project_loop sep can_print (pre @ post) ?st0)"
  proof (cases "project_loop sep can_print pre ?st0")
    case (Inl e')
    then show ?thesis by (simp add: project_loop_append)
  next
    case (Inr s)
    from step [of s] obtain s' where s': "process_file sep can_print f s = Inr s'"
      and eq: "all_symbols s' = all_symbols s"
      by (elim exE conjE)
    from eq have "corpus_of (project_loop sep can_print post s')
        = corpus_of (project_loop sep can_print post s)"
      by (rule project_loop_same_corpus)
    with Inr s' show ?thesis by (simp add: project_loop_append)
  qed
  then show ?thesis
    by (simp only: extract_symbols_from_project_def corpus_of_def)
qed

lemma sample_module_names:
  "get_module_name (CHR ''/'') ''pkg/a.py'' = ''pkg.a''"
  "get_module_name (CHR ''/'') ''c.py'' = ''c''"
  by (simp_all add: get_module_name_def endswith_def)

lemma sample_extractions:
  "extract_symbols_from_file (CHR ''/'') good_file = Inr [(''pkg.a'', ''about a'')]"
  "extract_symbols_from_file (CHR ''/'') later_file = Inr [(''c.g'', ''about g'')]"
  "extract_symbols_from_file (CHR ''/'') bad_file = Inl SyntaxError"
  "extract_symbols_from_file (CHR ''/'') unprintable_bad_file = Inl SyntaxError"
  by (simp_all add: good_file_def later_file_def bad_file_def unprintable_bad_file_def
      extract_symbols_from_file_def extract_symbols_def record_docstring_def
      sample_module_names)

lemma sample_names:
  "endswith (file_name good_file) ''.py''" "endswith (file_name later_file) ''.py''"
  "endswith (file_name bad_file) ''.py''" "endswith (file_name unprintable_bad_file) ''.py''"
  by (simp_all add: good_file_def later_file_def bad_file_def unprintable_bad_file_def
      endswith_def)

lemma sample_console:
  "utf8_strict (Processed (file_path good_file))"
  "utf8_strict (Processed (file_path later_file))"
  "utf8_strict (Failed (file_path bad_file) SyntaxError)"
  "\<not> utf8_strict (Failed (file_path unprintable_bad_file) SyntaxError)"
  by (simp_all add: utf8_strict_def good_file_def later_file_def bad_file_def
      unprintable_bad_file_def)

lemma sample_steps:
  "process_file (CHR ''/'') utf8_strict good_file st
     = Inr (st\<lparr>all_symbols := dict_update (all_symbols st) [(''pkg.a'', ''about a'')],
               printed := printed st @ [Processed (file_path good_file)]\<rparr>)"
  "process_file (CHR ''/'') utf8_strict later_file st
     = Inr (st\<lparr>all_symbols := dict_update (all_symbols st) [(''c.g'', ''about g'')],
               printed := printed st @ [Processed (file_path later_file)]\<rparr>)"
  "process_file (CHR ''/'') utf8_strict bad_file st
     = Inr (st\<lparr>printed := printed st @ [Failed (file_path bad_file) SyntaxError]\<rparr>)"
  "process_file (CHR ''/'') utf8_strict unprintable_bad_file st = Inl UnicodeEncodeError"
  by (simp_all add: process_file_def try_file_def print_line_def sample_names
      sample_extractions sample_console)

text \<open>The run over a file that does not parse and whose message can be printed.\<close>

lemma sample_run_skips:
  "extract_symbols_from_project (CHR ''/'') utf8_strict [good_file, bad_file, later_file]
     = Inr [(''pkg.a'', ''about a''), (''c.g'', ''about g'')]"
  by (simp add: extract_symbols_from_project_def sample_steps dict_update_def)

lemma sample_run_plain:
  "extract_symbols_from_project (CHR ''/'') utf8_strict [good_file, later_file]
     = Inr [(''pkg.a'', ''about a''), (''c.g'', ''about g'')]"
  by (simp add: extract_symbols_from_project_def sample_steps dict_update_def)

lemma sample_run_aborts:
  "extract_symbols_from_project (CHR ''/'') utf8_strict
     [good_file, unprintable_bad_file, later_file] = Inl UnicodeEncodeError"
  by (simp add: extract_symbols_from_project_def sample_steps)

text \<open>
  C9. The claim: when extracting a file raises, the accumulated dictionary is what it
  was before that file and processing goes on with the remaining files instead of
  aborting the run. The handler prints the file path under no \<^verbatim>\<open>try\<close>. On a file
  that does not parse and whose path standard output cannot encode, that
  \<^verbatim>\<open>print\<close> raises \<^verbatim>\<open>UnicodeEncodeError\<close>: the run ends with that exception
  and gives no dictionary, where the run without the file gives the entries of the two
  other files.
\<close>

theorem unprintable_failure_aborts:
  "parsed unprintable_bad_file = Inl SyntaxError \<and>
   extract_symbols_from_project (CHR ''/'') utf8_strict
     [good_file, unprintable_bad_file, later_file] = Inl UnicodeEncodeError \<and>
   extract_symbols_from_project (CHR ''/'') utf8_strict [good_file, later_file]
     = Inr [(''pkg.a'', ''about a''), (''c.g'', ''about g'')]"
proof (intro conjI)
  show "parsed unprintable_bad_file = Inl SyntaxError"
    by (simp add: unprintable_bad_file_def)
  show "extract_symbols_from_project (CHR ''/'') utf8_strict
     [good_file, unprintable_bad_file, later_file] = Inl UnicodeEncodeError"
    by (rule sample_run_aborts)
  show "extract_symbols_from_project (CHR ''/'') utf8_strict [good_file, later_file]
     = Inr [(''pkg.a'', ''about a''), (''c.g'', ''about g'')]"
    by (rule sample_run_plain)
qed


section \<open>Similarity\<close>

lemma calculate_similarity_returns:
  "calculate_similarity tfidf text1 text2 = Inr (similarity_of tfidf text1 text2)"
  by (simp add: similarity_of_def calculate_similarity_def split: sum.splits)

text \<open>
  C8. \<^verbatim>\<open>calculate_similarity\<close> always returns a score and never an error: the
  score is 0 when either text is empty, whatever the vectoriser would do on the texts,
  and 0 when the vectoriser raises.
\<close>

theorem calculate_similarity_total:
  "(\<exists>sim. calculate_similarity tfidf text1 text2 = Inr sim) \<and>
   (text1 = [] \<or> text2 = [] \<longrightarrow> calculate_similarity tfidf text1 text2 = Inr 0) \<and>
   (\<forall>e. tfidf text1 text2 = Inl e \<longrightarrow> calculate_similarity tfidf text1 text2 = Inr 0)"
proof (intro conjI allI impI)
  show "\<exists>sim. calculate_similarity tfidf text1 text2 = Inr sim"
    using calculate_similarity_returns [of tfidf text1 text2] by (rule exI)
next
  assume "text1 = [] \<or> text2 = []"
  then show "calculate_similarity tfidf text1 text2 = Inr 0"
    by (simp add: calculate_similarity_def)
next
  fix e assume "tfidf text1 text2 = Inl e"
  then show "calculate_similarity tfidf text1 text2 = Inr 0"
    by (simp add: calculate_similarity_def)
qed

lemma sample_scores:
  "one_word_tfidf ''the'' ''of'' = Inl ValueError"
  "one_word_tfidf ''sort'' ''sort'' = Inr 1"
  "one_word_tfidf ''sort'' ''merge'' = Inr 0"
  by (simp_all add: one_word_tfidf_def)

theorem calculate_similarity_total_witness:
  "one_word_tfidf ''the'' ''of'' = Inl ValueError \<and>
   calculate_similarity one_word_tfidf ''the'' ''of'' = Inr 0 \<and>
   calculate_similarity one_word_tfidf [] ''sort'' = Inr 0 \<and>
   calculate_similarity one_word_tfidf ''sort'' ''sort'' = Inr 1"
  using calculate_similarity_total [of one_word_tfidf "''the''" "''of''"]
    calculate_similarity_total [of one_word_tfidf "[]" "''sort''"]
  by (simp add: sample_scores calculate_similarity_def)

section \<open>Matching\<close>

lemma first_best_Nil:
  "suf = last_segment k \<Longrightarrow> none_above tfidf suf desc post (similarity_of tfidf desc d)
     \<Longrightarrow> first_best tfidf suf desc [] (k, d) post"
  by (simp add: first_best_def none_above_def)

lemma first_best_Cons:
  assumes "first_best tfidf suf desc pre entry post"
    and "suf = last_segment k0 \<longrightarrow> similarity_of tfidf desc d0 < similarity_of tfidf desc (snd entry)"
  shows "first_best tfidf suf desc ((k0, d0) # pre) entry post"
  using assms by (auto simp: first_best_def)

lemma none_above_Cons:
  "none_above tfidf suf desc ((k0, d0) # items) bound =
     ((suf = last_segment k0 \<longrightarrow> similarity_of tfidf desc d0 \<le> bound) \<and>
      none_above tfidf suf desc items bound)"
  by (simp add: none_above_def)

text \<open>
  The inner loop returns; it either leaves the state as it was, no candidate scoring
  above the score it started with, or ends on the first candidate with the best score.
\<close>

lemma suffix_scan_result:
  "\<exists>b'. suffix_scan tfidf suf desc items b = Inr b' \<and>
     ((b' = b \<and> none_above tfidf suf desc items (best_similarity b)) \<or>
      (\<exists>pre entry post. items = pre @ entry # post \<and>
          first_best tfidf suf desc pre entry post \<and>
          best_similarity b < similarity_of tfidf desc (snd entry) \<and>
          b' = chosen entry (similarity_of tfidf desc (snd entry))))"
proof (induction items arbitrary: b)
  case Nil
  show ?case by (simp add: none_above_def)
next
  case (Cons item items)
  obtain k0 d0 where item: "item = (k0, d0)" by (cases item)
  let ?s0 = "similarity_of tfidf desc d0"
  show ?case
  proof (cases "suf = last_segment k0 \<and> best_similarity b < ?s0")
    case True
    let ?b1 = "chosen item ?s0"
    from True item have step: "suffix_scan tfidf suf desc (item # items) b =
        suffix_scan tfidf suf desc items ?b1"
      by (simp add: calculate_similarity_returns chosen_def)
    from Cons.IH [of ?b1] obtain b' where
      run: "suffix_scan tfidf suf desc items ?b1 = Inr b'" and
      alt: "(b' = ?b1 \<and> none_above tfidf suf desc items (best_similarity ?b1)) \<or>
            (\<exists>pre entry post. items = pre @ entry # post \<and>
               first_best tfidf suf desc pre entry post \<and>
               best_similarity ?b1 < similarity_of tfidf desc (snd entry) \<and>
               b' = chosen entry (similarity_of tfidf desc (snd entry)))"
      by blast
    from alt show ?thesis
    proof
      assume keep: "b' = ?b1 \<and> none_above tfidf suf desc items (best_similarity ?b1)"
      then have "first_best tfidf suf desc [] item items"
        using True item by (simp add: first_best_Nil chosen_def)
      moreover have "item # items = [] @ item # items" by simp
      ultimately have "\<exists>pre entry post. item # items = pre @ entry # post \<and>
          first_best tfidf suf desc pre entry post \<and>
          best_similarity b < similarity_of tfidf desc (snd entry) \<and>
          b' = chosen entry (similarity_of tfidf desc (snd entry))"
        using True keep item by (intro exI [of _ "[]"] exI [of _ item] exI [of _ items]) simp
      with run step show ?thesis by simp
    next
      assume "\<exists>pre entry post. items = pre @ entry # post \<and>
               first_best tfidf suf desc pre entry post \<and>
               best_similarity ?b1 < similarity_of tfidf desc (snd entry) \<and>
               b' = chosen entry (similarity_of tfidf desc (snd entry))"
      then obtain pre entry post where
        split: "items = pre @ entry # post" and
        fb: "first_best tfidf suf desc pre entry post" and
        gt: "?s0 < similarity_of tfidf desc (snd entry)" and
        b': "b' = chosen entry (similarity_of tfidf desc (snd entry))"
        by (auto simp: chosen_def)
      have "first_best tfidf suf desc (item # pre) entry post"
        using fb gt item by (simp add: first_best_Cons)
      moreover have "item # items = (item # pre) @ entry # post" using split by simp
      moreover have "best_similarity b < similarity_of tfidf desc (snd entry)"
        using True gt by simp
      ultimately have "\<exists>pre entry post. item # items = pre @ entry # post \<and>
          first_best tfidf suf desc pre entry post \<and>
          best_similarity b < similarity_of tfidf desc (snd entry) \<and>
          b' = chosen entry (similarity_of tfidf desc (snd entry))"
        using b' by blast
      with run step show ?thesis by simp
    qed
  next
    case False
    from False item have step: "suffix_scan tfidf suf desc (item # items) b =
        suffix_scan tfidf suf desc items b"
      by (auto simp: calculate_similarity_returns)
    from False have low: "suf = last_segment k0 \<longrightarrow> ?s0 \<le> best_similarity b"
      by auto
    from Cons.IH [of b] obtain b' where
      run: "suffix_scan tfidf suf desc items b = Inr b'" and
      alt: "(b' = b \<and> none_above tfidf suf desc items (best_similarity b)) \<or>
            (\<exists>pre entry post. items = pre @ entry # post \<and>
               first_best tfidf suf desc pre entry post \<and>
               best_similarity b < similarity_of tfidf desc (snd entry) \<and>
               b' = chosen entry (similarity_of tfidf desc (snd entry)))"
      by blast
    from alt show ?thesis
    proof
      assume "b' = b \<and> none_above tfidf suf desc items (best_similarity b)"
      with low item run step show ?thesis by (simp add: none_above_Cons)
    next
      assume "\<exists>pre entry post. items = pre @ entry # post \<and>
               first_best tfidf suf desc pre entry post \<and>
               best_similarity b < similarity_of tfidf desc (snd entry) \<and>
               b' = chosen entry (similarity_of tfidf desc (snd entry))"
      then obtain pre entry post where
        split: "items = pre @ entry # post" and
        fb: "first_best tfidf suf desc pre entry post" and
        gt: "best_similarity b < similarity_of tfidf desc (snd entry)" and
        b': "b' = chosen entry (similarity_of tfidf desc (snd entry))"
        by auto
      have "first_best tfidf suf desc (item # pre) entry post"
        using fb gt low item by (auto simp: first_best_Cons)
      moreover have "item # items = (item # pre) @ entry # post" using split by simp
      ultimately have "\<exists>pre entry post. item # items = pre @ entry # post \<and>
          first_best tfidf suf desc pre entry post \<and>
          best_similarity b < similarity_of tfidf desc (snd entry) \<and>
          b' = chosen entry (similarity_of tfidf desc (snd entry))"
        using b' gt by blast
      with run step show ?thesis by simp
    qed
  qed
qed

lemma match_symbol_fuzzy:
  assumes absent: "map_of docs k = None" and keys: "[] \<notin> set (dict_keys docs)"
  shows "(match_symbol tfidf docs (k, desc) = Inr (no_match k desc) \<and>
          none_above tfidf (last_segment k) desc docs 0) \<or>
         (\<exists>pre entry post. docs = pre @ entry # post \<and>
            first_best tfidf (last_segment k) desc pre entry post \<and>
            0 < similarity_of tfidf desc (snd entry) \<and>
            match_symbol tfidf docs (k, desc) = Inr (fuzzy_result tfidf k desc entry))"
proof -
  let ?b0 = "\<lparr>best_match = None, best_similarity = 0, best_docstring_desc = []\<rparr>"
  from suffix_scan_result [of tfidf "last_segment k" desc docs ?b0] obtain b' where
    run: "suffix_scan tfidf (last_segment k) desc docs ?b0 = Inr b'" and
    alt: "(b' = ?b0 \<and> none_above tfidf (last_segment k) desc docs (best_similarity ?b0)) \<or>
          (\<exists>pre entry post. docs = pre @ entry # post \<and>
             first_best tfidf (last_segment k) desc pre entry post \<and>
             best_similarity ?b0 < similarity_of tfidf desc (snd entry) \<and>
             b' = chosen entry (similarity_of tfidf desc (snd entry)))"
    by blast
  from alt show ?thesis
  proof
    assume "b' = ?b0 \<and> none_above tfidf (last_segment k) desc docs (best_similarity ?b0)"
    with run absent show ?thesis by (simp add: match_symbol_def)
  next
    assume "\<exists>pre entry post. docs = pre @ entry # post \<and>
             first_best tfidf (last_segment k) desc pre entry post \<and>
             best_similarity ?b0 < similarity_of tfidf desc (snd entry) \<and>
             b' = chosen entry (similarity_of tfidf desc (snd entry))"
    then obtain pre entry post where
      split: "docs = pre @ entry # post" and
      fb: "first_best tfidf (last_segment k) desc pre entry post" and
      pos: "0 < similarity_of tfidf desc (snd entry)" and
      b': "b' = chosen entry (similarity_of tfidf desc (snd entry))"
      by auto
    from split keys have "fst entry \<noteq> []" by (auto simp: dict_keys_def)
    with run absent b' have
      "match_symbol tfidf docs (k, desc) = Inr (fuzzy_result tfidf k desc entry)"
      by (simp add: match_symbol_def chosen_def fuzzy_result_def)
    with split fb pos show ?thesis by blast
  qed
qed

lemma none_above_append:
  "none_above tfidf suf desc (pre @ post) bound =
     (none_above tfidf suf desc pre bound \<and> none_above tfidf suf desc post bound)"
  unfolding none_above_def by (simp add: ball_Un)

lemma strictly_below_none_above:
  assumes "\<forall>(k', d') \<in> set pre. suf = last_segment k' \<longrightarrow> similarity_of tfidf desc d' < bound"
  shows "none_above tfidf suf desc pre bound"
  unfolding none_above_def
proof (rule ballI)
  fix x assume x: "x \<in> set pre"
  obtain k' d' where xk: "x = (k', d')" by (cases x)
  from assms x xk have "suf = last_segment k' \<longrightarrow> similarity_of tfidf desc d' < bound"
    by fastforce
  then show "case x of (k', d') \<Rightarrow> suf = last_segment k' \<longrightarrow> similarity_of tfidf desc d' \<le> bound"
    using xk by auto
qed

lemma first_best_is_top:
  assumes items: "items = pre @ entry # post" and fb: "first_best tfidf suf desc pre entry post"
  shows "is_top tfidf suf desc items entry"
proof -
  let ?s = "similarity_of tfidf desc (snd entry)"
  from fb have cand: "suf = last_segment (fst entry)"
    and before: "\<forall>(k', d') \<in> set pre. suf = last_segment k' \<longrightarrow> similarity_of tfidf desc d' < ?s"
    and after: "none_above tfidf suf desc post ?s"
    unfolding first_best_def none_above_def by blast+
  from before have "none_above tfidf suf desc pre ?s" by (rule strictly_below_none_above)
  moreover have "none_above tfidf suf desc [entry] ?s"
    unfolding none_above_def by (cases entry) simp
  ultimately have "none_above tfidf suf desc (pre @ [entry] @ post) ?s"
    using after by (simp only: none_above_append simp_thms)
  with items cand show ?thesis unfolding is_top_def by simp
qed

lemma none_above_set:
  "set items' = set items \<Longrightarrow>
     none_above tfidf suf desc items' bound = none_above tfidf suf desc items bound"
  unfolding none_above_def by (rule ball_cong) simp_all

lemma is_top_set:
  assumes "set items' = set items"
  shows "is_top tfidf suf desc items' entry = is_top tfidf suf desc items entry"
proof -
  from assms have "none_above tfidf suf desc items' (similarity_of tfidf desc (snd entry))
      = none_above tfidf suf desc items (similarity_of tfidf desc (snd entry))"
    by (rule none_above_set)
  then show ?thesis unfolding is_top_def by (rule arg_cong)
qed

lemma fuzzy_result_not_sentinel:
  assumes "0 < similarity_of tfidf desc (snd entry)"
  shows "fuzzy_result tfidf k desc entry \<noteq> no_match k desc"
proof
  assume "fuzzy_result tfidf k desc entry = no_match k desc"
  then have "similarity (fuzzy_result tfidf k desc entry) = similarity (no_match k desc)"
    by (rule arg_cong)
  then have "similarity_of tfidf desc (snd entry) = 0"
    unfolding fuzzy_result_def no_match_def by (simp only: match_result.simps)
  with assms show False by simp
qed

lemma positive_top_not_none_above:
  assumes mem: "entry \<in> set items" and top: "is_top tfidf suf desc items entry"
    and pos: "0 < similarity_of tfidf desc (snd entry)"
  shows "\<not> none_above tfidf suf desc items 0"
proof
  assume "none_above tfidf suf desc items 0"
  with mem have "case entry of (k', d') \<Rightarrow> suf = last_segment k' \<longrightarrow> similarity_of tfidf desc d' \<le> 0"
    unfolding none_above_def by (rule bspec [rotated])
  then have "suf = last_segment (fst entry) \<longrightarrow> similarity_of tfidf desc (snd entry) \<le> 0"
    by (cases entry) simp
  moreover from top have "suf = last_segment (fst entry)" unfolding is_top_def by (rule conjunct1)
  ultimately show False using pos by simp
qed

lemma match_symbol_returns: "\<exists>r. match_symbol tfidf docstrings_data item = Inr r"
proof -
  obtain k desc where item: "item = (k, desc)" by (cases item)
  show ?thesis
  proof (cases "map_of docstrings_data k")
    case (Some d)
    with item show ?thesis by (simp add: match_symbol_def calculate_similarity_returns)
  next
    case None
    let ?b0 = "\<lparr>best_match = None, best_similarity = 0, best_docstring_desc = []\<rparr>"
    from suffix_scan_result [of tfidf "last_segment k" desc docstrings_data ?b0]
    obtain b' where "suffix_scan tfidf (last_segment k) desc docstrings_data ?b0 = Inr b'"
      by (elim exE conjE)
    with None item show ?thesis
      by (simp add: match_symbol_def split: option.splits)
  qed
qed

text \<open>
  \<^verbatim>\<open>match_symbols\<close> returns one result for each entry of the summary dictionary,
  in its order: the result of the loop body on that entry.
\<close>

lemma match_loop_entries:
  "\<exists>rs. match_loop tfidf docstrings_data items acc = Inr (acc @ rs) \<and>
        length rs = length items \<and>
        (\<forall>i < length items. match_symbol tfidf docstrings_data (items ! i) = Inr (rs ! i))"
proof (induction items arbitrary: acc)
  case Nil
  show ?case by simp
next
  case (Cons item items)
  from match_symbol_returns obtain r where r: "match_symbol tfidf docstrings_data item = Inr r"
    by blast
  from Cons.IH [of "acc @ [r]"] obtain rs where
    run: "match_loop tfidf docstrings_data items (acc @ [r]) = Inr ((acc @ [r]) @ rs)" and
    len: "length rs = length items" and
    each: "\<forall>i < length items. match_symbol tfidf docstrings_data (items ! i) = Inr (rs ! i)"
    by (elim exE conjE)
  have "match_loop tfidf docstrings_data (item # items) acc = Inr (acc @ r # rs)"
    using r run by simp
  moreover have "length (r # rs) = length (item # items)" using len by simp
  moreover have "\<forall>i < length (item # items).
      match_symbol tfidf docstrings_data ((item # items) ! i) = Inr ((r # rs) ! i)"
  proof (intro allI impI)
    fix i assume "i < length (item # items)"
    then show "match_symbol tfidf docstrings_data ((item # items) ! i) = Inr ((r # rs) ! i)"
      using r each by (cases i) simp_all
  qed
  ultimately show ?case by blast
qed

lemma sample_segments:
  "last_segment ''x.sort'' = ''sort''"
  "last_segment ''a.sort'' = ''sort''"
  "last_segment ''b.sort'' = ''sort''"
  "last_segment ''pandas.sort'' = ''sort''"
  by (simp_all add: last_segment_def)

lemma sample_similarities:
  "similarity_of one_word_tfidf ''sort'' ''sort'' = 1"
  "similarity_of one_word_tfidf ''sort'' ''merge'' = 0"
  by (simp_all add: similarity_of_def calculate_similarity_def one_word_tfidf_def)

text \<open>
  C7. For a summary entry whose key is a key of the docstring dictionary, the result
  emitted at its position names that key, with the score of the two texts; no other
  entry of the docstring dictionary has a part in it.
\<close>

theorem exact_match_preferred:
  assumes "i < length summary_data" and "summary_data ! i = (k, desc)"
    and "map_of docstrings_data k = Some d"
  shows "\<exists>rs. match_symbols tfidf summary_data docstrings_data = Inr rs \<and>
           length rs = length summary_data \<and>
           rs ! i = \<lparr>summary_symbol = k, docstring_symbol = k,
                     similarity = similarity_of tfidf desc d,
                     summary_description = desc, docstring_description = d\<rparr>"
proof -
  from match_loop_entries [of tfidf docstrings_data summary_data "[]"] obtain rs where
    run: "match_loop tfidf docstrings_data summary_data [] = Inr ([] @ rs)" and
    len: "length rs = length summary_data" and
    each: "\<forall>i < length summary_data.
             match_symbol tfidf docstrings_data (summary_data ! i) = Inr (rs ! i)"
    by (elim exE conjE)
  from each assms(1,2) have "match_symbol tfidf docstrings_data (k, desc) = Inr (rs ! i)"
    by auto
  moreover from assms(3) have "match_symbol tfidf docstrings_data (k, desc) =
      Inr \<lparr>summary_symbol = k, docstring_symbol = k, similarity = similarity_of tfidf desc d,
           summary_description = desc, docstring_description = d\<rparr>"
    by (simp add: match_symbol_def calculate_similarity_returns)
  ultimately have "rs ! i = \<lparr>summary_symbol = k, docstring_symbol = k,
      similarity = similarity_of tfidf desc d,
      summary_description = desc, docstring_description = d\<rparr>"
    by simp
  with run len show ?thesis by (simp add: match_symbols_def)
qed

lemma sample_exact:
  "match_symbols one_word_tfidf [(''pandas.sort'', ''sort'')]
       [(''x.sort'', ''sort''), (''pandas.sort'', ''merge'')]
     = Inr [\<lparr>summary_symbol = ''pandas.sort'', docstring_symbol = ''pandas.sort'',
             similarity = 0, summary_description = ''sort'',
             docstring_description = ''merge''\<rparr>]"
  by (simp add: match_symbols_def match_symbol_def calculate_similarity_returns
      sample_similarities)

theorem exact_match_preferred_witness:
  "0 < length [(''pandas.sort'', ''sort'')] \<and>
   [(''pandas.sort'', ''sort'')] ! 0 = (''pandas.sort'', ''sort'') \<and>
   map_of [(''x.sort'', ''sort''), (''pandas.sort'', ''merge'')] ''pandas.sort'' = Some ''merge'' \<and>
   match_symbols one_word_tfidf [(''pandas.sort'', ''sort'')]
       [(''x.sort'', ''sort''), (''pandas.sort'', ''merge'')]
     = Inr [\<lparr>summary_symbol = ''pandas.sort'', docstring_symbol = ''pandas.sort'',
             similarity = 0, summary_description = ''sort'',
             docstring_description = ''merge''\<rparr>]"
  using exact_match_preferred [of 0 "[(''pandas.sort'', ''sort'')]" "''pandas.sort''" "''sort''"
      "[(''x.sort'', ''sort''), (''pandas.sort'', ''merge'')]" "''merge''" one_word_tfidf]
  by (simp add: sample_exact)

text \<open>
  C5, as amended. For a summary entry whose key is no key of the docstring dictionary,
  the docstring dictionary having no empty key: the result is the sentinel exactly when
  no key with the same last segment has a score above 0; a result that is not the
  sentinel names an entry of the docstring dictionary that is a candidate with the
  maximum score, and carries that score.
\<close>

theorem fuzzy_sentinel_iff:
  assumes "map_of docstrings_data summary_key = None"
    and "[] \<notin> set (dict_keys docstrings_data)"
  shows "\<exists>r. match_symbol tfidf docstrings_data (summary_key, summary_desc) = Inr r \<and>
     ((r = no_match summary_key summary_desc)
        = none_above tfidf (last_segment summary_key) summary_desc docstrings_data 0) \<and>
     (r \<noteq> no_match summary_key summary_desc \<longrightarrow>
        (docstring_symbol r, docstring_description r) \<in> set docstrings_data \<and>
        is_top tfidf (last_segment summary_key) summary_desc docstrings_data
          (docstring_symbol r, docstring_description r) \<and>
        similarity r = similarity_of tfidf summary_desc (docstring_description r))"
proof -
  let ?suf = "last_segment summary_key"
  from match_symbol_fuzzy [OF assms, of tfidf summary_desc]
  consider
    (none) "match_symbol tfidf docstrings_data (summary_key, summary_desc)
              = Inr (no_match summary_key summary_desc)"
           "none_above tfidf ?suf summary_desc docstrings_data 0"
  | (some) pre entry post where
      "docstrings_data = pre @ entry # post"
      "first_best tfidf ?suf summary_desc pre entry post"
      "0 < similarity_of tfidf summary_desc (snd entry)"
      "match_symbol tfidf docstrings_data (summary_key, summary_desc)
         = Inr (fuzzy_result tfidf summary_key summary_desc entry)"
    by blast
  then show ?thesis
  proof cases
    case none
    then show ?thesis by simp
  next
    case some
    let ?r = "fuzzy_result tfidf summary_key summary_desc entry"
    have top: "is_top tfidf ?suf summary_desc docstrings_data entry"
      using some(1,2) by (rule first_best_is_top)
    have mem: "entry \<in> set docstrings_data" using some(1) by simp
    have ne: "?r \<noteq> no_match summary_key summary_desc"
      using some(3) by (rule fuzzy_result_not_sentinel)
    have above: "\<not> none_above tfidf ?suf summary_desc docstrings_data 0"
      using mem top some(3) by (rule positive_top_not_none_above)
    have entry: "(docstring_symbol ?r, docstring_description ?r) = entry"
      by (simp add: fuzzy_result_def)
    have score: "similarity ?r = similarity_of tfidf summary_desc (docstring_description ?r)"
      by (simp add: fuzzy_result_def)
    have "(?r = no_match summary_key summary_desc)
        = none_above tfidf ?suf summary_desc docstrings_data 0"
      using ne above by simp
    moreover have "(docstring_symbol ?r, docstring_description ?r) \<in> set docstrings_data"
      using mem entry by simp
    moreover have "is_top tfidf ?suf summary_desc docstrings_data
          (docstring_symbol ?r, docstring_description ?r)"
      using top entry by simp
    ultimately show ?thesis using some(4) score by blast
  qed
qed

lemma sample_second_wins:
  "match_symbol one_word_tfidf [(''a.sort'', ''merge''), (''b.sort'', ''sort'')]
       (''x.sort'', ''sort'')
     = Inr \<lparr>summary_symbol = ''x.sort'', docstring_symbol = ''b.sort'', similarity = 1,
            summary_description = ''sort'', docstring_description = ''sort''\<rparr>"
  by (simp add: match_symbol_def sample_segments calculate_similarity_returns
      sample_similarities)

theorem fuzzy_sentinel_iff_witness:
  "map_of [(''a.sort'', ''merge''), (''b.sort'', ''sort'')] ''x.sort'' = None \<and>
   [] \<notin> set (dict_keys [(''a.sort'', ''merge''), (''b.sort'', ''sort'')]) \<and>
   match_symbol one_word_tfidf [(''a.sort'', ''merge''), (''b.sort'', ''sort'')]
       (''x.sort'', ''sort'')
     = Inr \<lparr>summary_symbol = ''x.sort'', docstring_symbol = ''b.sort'', similarity = 1,
            summary_description = ''sort'', docstring_description = ''sort''\<rparr>"
  using fuzzy_sentinel_iff [of "[(''a.sort'', ''merge''), (''b.sort'', ''sort'')]" "''x.sort''"
      one_word_tfidf "''sort''"]
  by (simp add: sample_second_wins dict_keys_def)

text \<open>
  The claim as stated fails where the only candidate scores 0: a candidate exists and
  the sentinel is emitted.
\<close>

lemma sample_zero_candidate:
  "match_symbol one_word_tfidf [(''a.sort'', ''merge'')] (''x.sort'', ''sort'')
     = Inr (no_match ''x.sort'' ''sort'')"
  by (simp add: match_symbol_def sample_segments calculate_similarity_returns
      sample_similarities)

theorem fuzzy_sentinel_counterexample:
  "map_of [(''a.sort'', ''merge'')] ''x.sort'' = None \<and>
   last_segment ''a.sort'' = last_segment ''x.sort'' \<and>
   match_symbol one_word_tfidf [(''a.sort'', ''merge'')] (''x.sort'', ''sort'')
     = Inr (no_match ''x.sort'' ''sort'')"
  by (simp add: sample_zero_candidate sample_segments)

text \<open>
  C6, as amended. For a summary entry whose key is no key of the docstring dictionary,
  the docstring dictionary having no empty key: the entry named by a result that is not
  the sentinel is the first, in the iteration order of the docstring dictionary, among
  the candidates with the maximum score; and where only one candidate has the maximum
  score, every dictionary with the same entries in another order gives the same result.
\<close>

theorem fuzzy_tie_break:
  assumes "map_of docstrings_data summary_key = None"
    and "[] \<notin> set (dict_keys docstrings_data)"
  shows "(\<forall>r. match_symbol tfidf docstrings_data (summary_key, summary_desc) = Inr r \<and>
              r \<noteq> no_match summary_key summary_desc \<longrightarrow>
            (\<exists>pre post.
               docstrings_data = pre @ (docstring_symbol r, docstring_description r) # post \<and>
               first_best tfidf (last_segment summary_key) summary_desc pre
                 (docstring_symbol r, docstring_description r) post)) \<and>
         (\<forall>other. set other = set docstrings_data \<and>
              single_top tfidf (last_segment summary_key) summary_desc docstrings_data \<longrightarrow>
            match_symbol tfidf other (summary_key, summary_desc)
              = match_symbol tfidf docstrings_data (summary_key, summary_desc))"
proof (intro conjI allI impI)
  let ?suf = "last_segment summary_key"
  fix r
  assume r: "match_symbol tfidf docstrings_data (summary_key, summary_desc) = Inr r \<and>
             r \<noteq> no_match summary_key summary_desc"
  from match_symbol_fuzzy [OF assms, of tfidf summary_desc] r
  obtain pre entry post where
    split: "docstrings_data = pre @ entry # post" and
    fb: "first_best tfidf ?suf summary_desc pre entry post" and
    res: "r = fuzzy_result tfidf summary_key summary_desc entry"
    by auto
  from res have "(docstring_symbol r, docstring_description r) = entry"
    by (simp add: fuzzy_result_def)
  with split fb show "\<exists>pre post.
       docstrings_data = pre @ (docstring_symbol r, docstring_description r) # post \<and>
       first_best tfidf ?suf summary_desc pre
         (docstring_symbol r, docstring_description r) post"
    by auto
next
  let ?suf = "last_segment summary_key"
  fix other
  assume hyp: "set other = set docstrings_data \<and>
               single_top tfidf ?suf summary_desc docstrings_data"
  then have same: "set other = set docstrings_data"
    and single: "single_top tfidf ?suf summary_desc docstrings_data"
    by simp_all
  from same assms(1) have absent: "map_of other summary_key = None"
    by (simp add: map_of_eq_None_iff)
  from same assms(2) have keys: "[] \<notin> set (dict_keys other)"
    by (simp add: dict_keys_def)
  from match_symbol_fuzzy [OF assms, of tfidf summary_desc]
  consider
    (none) "match_symbol tfidf docstrings_data (summary_key, summary_desc)
              = Inr (no_match summary_key summary_desc)"
           "none_above tfidf ?suf summary_desc docstrings_data 0"
  | (some) pre entry post where
      "docstrings_data = pre @ entry # post"
      "first_best tfidf ?suf summary_desc pre entry post"
      "0 < similarity_of tfidf summary_desc (snd entry)"
      "match_symbol tfidf docstrings_data (summary_key, summary_desc)
         = Inr (fuzzy_result tfidf summary_key summary_desc entry)"
    by blast
  then show "match_symbol tfidf other (summary_key, summary_desc)
              = match_symbol tfidf docstrings_data (summary_key, summary_desc)"
  proof cases
    case none
    from match_symbol_fuzzy [OF absent keys, of tfidf summary_desc]
    consider
      (none') "match_symbol tfidf other (summary_key, summary_desc)
                = Inr (no_match summary_key summary_desc)"
    | (some') pre' entry' post' where
        "other = pre' @ entry' # post'"
        "first_best tfidf ?suf summary_desc pre' entry' post'"
        "0 < similarity_of tfidf summary_desc (snd entry')"
      by blast
    then show ?thesis
    proof cases
      case none'
      with none(1) show ?thesis by simp
    next
      case some'
      have top_o: "is_top tfidf ?suf summary_desc other entry'"
        using some'(1,2) by (rule first_best_is_top)
      have mem_o: "entry' \<in> set other" using some'(1) by simp
      have "\<not> none_above tfidf ?suf summary_desc other 0"
        using mem_o top_o some'(3) by (rule positive_top_not_none_above)
      with none(2) none_above_set [OF same, of tfidf ?suf summary_desc 0] show ?thesis by simp
    qed
  next
    case some
    have top: "is_top tfidf ?suf summary_desc docstrings_data entry"
      using some(1,2) by (rule first_best_is_top)
    have mem: "entry \<in> set docstrings_data" using some(1) by simp
    from match_symbol_fuzzy [OF absent keys, of tfidf summary_desc]
    consider
      (none') "none_above tfidf ?suf summary_desc other 0"
    | (some') pre' entry' post' where
        "other = pre' @ entry' # post'"
        "first_best tfidf ?suf summary_desc pre' entry' post'"
        "match_symbol tfidf other (summary_key, summary_desc)
           = Inr (fuzzy_result tfidf summary_key summary_desc entry')"
      by blast
    then show ?thesis
    proof cases
      case none'
      have "\<not> none_above tfidf ?suf summary_desc docstrings_data 0"
        using mem top some(3) by (rule positive_top_not_none_above)
      with none' none_above_set [OF same, of tfidf ?suf summary_desc 0] show ?thesis by simp
    next
      case some'
      have "is_top tfidf ?suf summary_desc other entry'"
        using some'(1,2) by (rule first_best_is_top)
      with is_top_set [OF same, of tfidf ?suf summary_desc entry']
      have top': "is_top tfidf ?suf summary_desc docstrings_data entry'"
        by simp
      have mem': "entry' \<in> set docstrings_data" using some'(1) same by auto
      from single mem mem' top top' have "entry = entry'"
        unfolding single_top_def by blast
      with some(4) some'(3) show ?thesis by simp
    qed
  qed
qed

lemma sample_second_wins_swapped:
  "match_symbol one_word_tfidf [(''b.sort'', ''sort''), (''a.sort'', ''merge'')]
       (''x.sort'', ''sort'')
     = Inr \<lparr>summary_symbol = ''x.sort'', docstring_symbol = ''b.sort'', similarity = 1,
            summary_description = ''sort'', docstring_description = ''sort''\<rparr>"
  by (simp add: match_symbol_def sample_segments calculate_similarity_returns
      sample_similarities)

lemma sample_single_top:
  "single_top one_word_tfidf (last_segment ''x.sort'') ''sort''
     [(''a.sort'', ''merge''), (''b.sort'', ''sort'')]"
  by (simp add: single_top_def is_top_def none_above_def sample_segments sample_similarities)

theorem fuzzy_tie_break_witness:
  "map_of [(''a.sort'', ''merge''), (''b.sort'', ''sort'')] ''x.sort'' = None \<and>
   [] \<notin> set (dict_keys [(''a.sort'', ''merge''), (''b.sort'', ''sort'')]) \<and>
   set [(''b.sort'', ''sort''), (''a.sort'', ''merge'')]
     = set [(''a.sort'', ''merge''), (''b.sort'', ''sort'')] \<and>
   single_top one_word_tfidf (last_segment ''x.sort'') ''sort''
     [(''a.sort'', ''merge''), (''b.sort'', ''sort'')] \<and>
   match_symbol one_word_tfidf [(''b.sort'', ''sort''), (''a.sort'', ''merge'')]
       (''x.sort'', ''sort'')
     = match_symbol one_word_tfidf [(''a.sort'', ''merge''), (''b.sort'', ''sort'')]
       (''x.sort'', ''sort'') \<and>
   (\<exists>pre post. [(''a.sort'', ''merge''), (''b.sort'', ''sort'')]
        = pre @ (''b.sort'', ''sort'') # post \<and>
      first_best one_word_tfidf (last_segment ''x.sort'') ''sort'' pre (''b.sort'', ''sort'') post)"
proof -
  let ?docs = "[(''a.sort'', ''merge''), (''b.sort'', ''sort'')]"
  let ?other = "[(''b.sort'', ''sort''), (''a.sort'', ''merge'')]"
  let ?r = "\<lparr>summary_symbol = ''x.sort'', docstring_symbol = ''b.sort'', similarity = 1,
            summary_description = ''sort'', docstring_description = ''sort''\<rparr>"
  have absent: "map_of ?docs ''x.sort'' = None" by simp
  have keys: "[] \<notin> set (dict_keys ?docs)" by (simp add: dict_keys_def)
  have same: "set ?other = set ?docs" by (simp add: insert_commute)
  note rule = fuzzy_tie_break [OF absent keys, of one_word_tfidf "''sort''"]
  have ne: "?r \<noteq> no_match ''x.sort'' ''sort''" by (simp add: no_match_def)
  from rule [THEN conjunct1, THEN spec, of ?r] sample_second_wins ne
  have "\<exists>pre post. ?docs = pre @ (docstring_symbol ?r, docstring_description ?r) # post \<and>
      first_best one_word_tfidf (last_segment ''x.sort'') ''sort'' pre
        (docstring_symbol ?r, docstring_description ?r) post"
    by blast
  then have first: "\<exists>pre post. ?docs = pre @ (''b.sort'', ''sort'') # post \<and>
      first_best one_word_tfidf (last_segment ''x.sort'') ''sort'' pre (''b.sort'', ''sort'') post"
    by simp
  from rule [THEN conjunct2, THEN spec, of ?other] same sample_single_top
  have swap: "match_symbol one_word_tfidf ?other (''x.sort'', ''sort'')
      = match_symbol one_word_tfidf ?docs (''x.sort'', ''sort'')"
    by blast
  from absent keys same sample_single_top swap first show ?thesis by blast
qed

text \<open>
  The claim as stated fails on a tie: two dictionaries with the same entries in
  different orders give different results.
\<close>

lemma sample_tie_first:
  "match_symbol one_word_tfidf [(''a.sort'', ''sort''), (''b.sort'', ''sort'')]
       (''x.sort'', ''sort'')
     = Inr \<lparr>summary_symbol = ''x.sort'', docstring_symbol = ''a.sort'', similarity = 1,
            summary_description = ''sort'', docstring_description = ''sort''\<rparr>"
  by (simp add: match_symbol_def sample_segments calculate_similarity_returns
      sample_similarities)

lemma sample_tie_swapped:
  "match_symbol one_word_tfidf [(''b.sort'', ''sort''), (''a.sort'', ''sort'')]
       (''x.sort'', ''sort'')
     = Inr \<lparr>summary_symbol = ''x.sort'', docstring_symbol = ''b.sort'', similarity = 1,
            summary_description = ''sort'', docstring_description = ''sort''\<rparr>"
  by (simp add: match_symbol_def sample_segments calculate_similarity_returns
      sample_similarities)

theorem fuzzy_tie_break_counterexample:
  "set [(''a.sort'', ''sort''), (''b.sort'', ''sort'')]
     = set [(''b.sort'', ''sort''), (''a.sort'', ''sort'')] \<and>
   match_symbol one_word_tfidf [(''a.sort'', ''sort''), (''b.sort'', ''sort'')]
       (''x.sort'', ''sort'')
   \<noteq> match_symbol one_word_tfidf [(''b.sort'', ''sort''), (''a.sort'', ''sort'')]
       (''x.sort'', ''sort'')"
  by (simp add: sample_tie_first sample_tie_swapped insert_commute)

end
